theory Spec2Isabelle
  imports
    Complex_Main
    "HOL-Library.Word"
    "HOL-Library.AList"
    "HOL-Library.Sublist"
    "HOL-Library.Multiset"
begin

section \<open>NewsBytes: a shallow embedding of \<^verbatim>\<open>src/index.js\<close>\<close>

text \<open>
  The bot keeps two in-memory \<^verbatim>\<open>Map\<close>s (\<^verbatim>\<open>userPreferences\<close>, \<^verbatim>\<open>selectionSession\<close>),
  fetches one RSS feed per topic, merges and ranks the items, renders one message and sends
  it through the Telegram Bot API. The two external collaborators (the RSS parser and the
  Bot API) are parameters of the model: a record \<open>env\<close> says, for each call, whether it
  succeeds and what it returns. A rejected promise is a value \<open>Rejected err\<close>; every
  \<^verbatim>\<open>await\<close> of the source is a case distinction on it.

  Each handler is modelled as one atomic transition: the source mutates the two maps
  before its first \<^verbatim>\<open>await\<close> in every handler, and \<^verbatim>\<open>sendDigestToUser\<close> only reads them.
\<close>

subsection \<open>JavaScript values\<close>

text \<open>A JavaScript string is a finite sequence of UTF-16 code units.\<close>

type_synonym js_string = "16 word list"

text \<open>An ASCII literal of the source, as code units.\<close>

definition js :: "string \<Rightarrow> js_string" where
  "js cs = map (\<lambda>c. of_nat (of_char c)) cs"

definition nl :: js_string where
  "nl = [0x0A]"

text \<open>\<^verbatim>\<open>Array.prototype.join\<close> on an array of strings.\<close>

fun join :: "js_string \<Rightarrow> js_string list \<Rightarrow> js_string" where
  "join sep [] = []"
| "join sep [x] = x"
| "join sep (x # y # ys) = x @ sep @ join sep (y # ys)"

text \<open>
  A \<^verbatim>\<open>Set\<close> keeps its elements in insertion order without duplicates: a list, with
  \<^verbatim>\<open>has\<close>, \<^verbatim>\<open>add\<close> (appends when absent), \<^verbatim>\<open>delete\<close>, \<^verbatim>\<open>new Set(array)\<close>
  (adds the elements left to right) and \<^verbatim>\<open>Array.from\<close> (the elements in insertion order).
\<close>

type_synonym 'a js_set = "'a list"

definition set_has :: "'a js_set \<Rightarrow> 'a \<Rightarrow> bool" where
  "set_has s x = (x \<in> set s)"

definition set_add :: "'a js_set \<Rightarrow> 'a \<Rightarrow> 'a js_set" where
  "set_add s x = (if set_has s x then s else s @ [x])"

definition set_delete :: "'a js_set \<Rightarrow> 'a \<Rightarrow> 'a js_set" where
  "set_delete s x = removeAll x s"

definition new_Set :: "'a list \<Rightarrow> 'a js_set" where
  "new_Set xs = foldl set_add [] xs"

definition array_from :: "'a js_set \<Rightarrow> 'a list" where
  "array_from s = s"

text \<open>
  A \<^verbatim>\<open>Map\<close> keeps its entries in insertion order: an association list, with
  \<^verbatim>\<open>get\<close> = \<^const>\<open>map_of\<close>, \<^verbatim>\<open>set\<close> = \<^const>\<open>AList.update\<close> (overwrites in place, or
  appends a new key), \<^verbatim>\<open>delete\<close> = \<^const>\<open>AList.delete\<close>, \<^verbatim>\<open>entries()\<close> = the list.
\<close>

type_synonym ('k, 'v) js_map = "('k \<times> 'v) list"

text \<open>
  The upper bound of \<^verbatim>\<open>slice(0, n)\<close>: \<^verbatim>\<open>Math.ceil(8 / 0)\<close> is \<^verbatim>\<open>Infinity\<close>.
\<close>

datatype js_count = Finite nat | Infinity

fun slice0 :: "js_count \<Rightarrow> 'a list \<Rightarrow> 'a list" where
  "slice0 (Finite k) xs = take k xs"
| "slice0 Infinity xs = xs"

text \<open>
  A \<^verbatim>\<open>Date\<close> object: its time value (milliseconds since the epoch, an integer), or an
  Invalid Date, whose time value is \<^verbatim>\<open>NaN\<close>. \<^verbatim>\<open>new Date(s)\<close> is an Invalid Date when
  \<open>s\<close> is \<^verbatim>\<open>undefined\<close> or cannot be parsed.
\<close>

datatype js_date = Time int | InvalidDate

text \<open>The number that a difference of two dates is: an integer, or \<^verbatim>\<open>NaN\<close>.\<close>

datatype js_number = Number int | NaN

text \<open>\<^verbatim>\<open>d1 - d2\<close> on two \<^verbatim>\<open>Date\<close> objects: \<^verbatim>\<open>NaN\<close> when one of them is invalid.\<close>

fun date_minus :: "js_date \<Rightarrow> js_date \<Rightarrow> js_number" where
  "date_minus (Time x) (Time y) = Number (x - y)"
| "date_minus (Time x) InvalidDate = NaN"
| "date_minus InvalidDate d = NaN"

text \<open>What \<^verbatim>\<open>sort\<close> makes of the comparator's result: \<^verbatim>\<open>NaN\<close> counts as \<open>0\<close>.\<close>

fun sort_compare :: "js_number \<Rightarrow> int" where
  "sort_compare (Number v) = v"
| "sort_compare NaN = 0"

text \<open>
  \<^verbatim>\<open>Array.prototype.sort(compare)\<close>: a stable sort (ECMAScript 2019); \<open>a\<close> stays before
  \<open>b\<close> unless \<open>compare a b > 0\<close>. The elements are inserted from the right, so that
  of two elements that compare equal the one that was first stays first. When the
  comparator is a consistent ordering, every stable sort gives this result. When it is not
  (an Invalid Date compares equal to every date), the language leaves the order to the
  implementation; on an array in which each pair of neighbours compares equal, as in the
  examples below, V8 finds one ascending run and leaves the array as it is, as the
  insertion does.
\<close>

fun js_insert :: "('a \<Rightarrow> 'a \<Rightarrow> js_number) \<Rightarrow> 'a \<Rightarrow> 'a list \<Rightarrow> 'a list" where
  "js_insert cmp x [] = [x]"
| "js_insert cmp x (y # ys) =
     (if sort_compare (cmp x y) \<le> 0 then x # y # ys else y # js_insert cmp x ys)"

fun js_sort :: "('a \<Rightarrow> 'a \<Rightarrow> js_number) \<Rightarrow> 'a list \<Rightarrow> 'a list" where
  "js_sort cmp [] = []"
| "js_sort cmp (x # xs) = js_insert cmp x (js_sort cmp xs)"

subsection \<open>Topics, feed items, articles\<close>

type_synonym topic = js_string
type_synonym chat_id = int

definition AVAILABLE_TOPICS :: "topic list" where
  "AVAILABLE_TOPICS =
     [js ''Technology'', js ''Business'', js ''Sports'', js ''Health'',
      js ''Science'', js ''Entertainment'', js ''Crypto'', js ''World News'']"

text \<open>
  An item of a parsed feed. \<open>pubDate\<close> is the \<^verbatim>\<open>Date\<close> that \<^verbatim>\<open>new Date(item.pubDate)\<close>
  builds: an Invalid Date when the item has no \<^verbatim>\<open>pubDate\<close> or one that does not parse.
  For two valid dates the sign of \<^verbatim>\<open>b.date - a.date\<close> is the sign of the difference of
  their time values.
\<close>

record item =
  title :: js_string
  link :: js_string
  pubDate :: js_date

record article =
  topic :: topic
  heading :: js_string
  url :: js_string
  date :: js_date

subsection \<open>The Bot API and the environment\<close>

datatype button = Button (label: js_string) (callback_data: js_string)

type_synonym keyboard = "button list list"

text \<open>
  The calls the source makes on the Bot API. \<open>SendMessage chat text markdown\<close>:
  \<open>markdown\<close> says whether \<^verbatim>\<open>parse_mode: 'Markdown'\<close> is passed.
\<close>

datatype tg_call =
    Reply chat_id js_string keyboard
  | SendMessage chat_id js_string bool
  | EditMessageReplyMarkup chat_id keyboard
  | EditMessageText chat_id js_string
  | AnswerCbQuery chat_id "js_string option"


datatype js_error = FeedError nat | TelegramError tg_call

datatype outcome = Resolved | Rejected js_error

text \<open>
  \<open>parseURL e t\<close> is what the body of the \<^verbatim>\<open>try\<close> block gets for topic \<open>t\<close>: the items
  of the feed at the topic's search URL, or the exception thrown on the way (by
  \<^verbatim>\<open>encodeURIComponent\<close>, by \<^verbatim>\<open>parser.parseURL\<close>, or by reading \<^verbatim>\<open>feed.items\<close>).
  \<open>telegram e c\<close> says whether the Bot API call \<open>c\<close> succeeds.
\<close>

record env =
  parseURL :: "topic \<Rightarrow> js_error + item list"
  telegram :: "tg_call \<Rightarrow> bool"

definition tg :: "env \<Rightarrow> tg_call \<Rightarrow> outcome" where
  "tg e c = (if telegram e c then Resolved else Rejected (TelegramError c))"

subsection \<open>State\<close>

record bot_state =
  userPreferences :: "(chat_id, topic list) js_map"
  selectionSession :: "(chat_id, topic js_set) js_map"

definition initial_state :: bot_state where
  "initial_state = \<lparr>userPreferences = [], selectionSession = []\<rparr>"

subsection \<open>\<^verbatim>\<open>fetchMixedNews\<close>\<close>

text \<open>
  \<^verbatim>\<open>Math.ceil(8 / topics.length)\<close>. For \<open>1 \<le> n\<close> the double \<^verbatim>\<open>8 / n\<close> has the same
  ceiling as the exact quotient: the quotient is exact for \<open>n \<in> {1, 2, 4, 8}\<close>, lies
  strictly between two integers for the other \<open>n < 8\<close>, and in \<open>(0, 1)\<close> for \<open>n > 8\<close>.
\<close>

definition storiesPerTopic :: "nat \<Rightarrow> js_count" where
  "storiesPerTopic n = (if n = 0 then Infinity else Finite (nat \<lceil>8 / real n\<rceil>))"

definition mk_article :: "topic \<Rightarrow> item \<Rightarrow> article" where
  "mk_article t i = \<lparr>topic = t, heading = title i, url = link i, date = pubDate i\<rparr>"

text \<open>The callback of \<^verbatim>\<open>topics.map\<close>: the \<^verbatim>\<open>catch\<close> turns every exception into \<open>[]\<close>.\<close>

definition fetchTopic :: "env \<Rightarrow> js_count \<Rightarrow> topic \<Rightarrow> js_error + article list" where
  "fetchTopic e q t =
     (case parseURL e t of
        Inr items \<Rightarrow> Inr (map (mk_article t) (slice0 q items))
      | Inl err \<Rightarrow> Inr [])"

text \<open>\<^verbatim>\<open>Promise.all\<close>: rejects when one of the promises does.\<close>

fun promise_all :: "(js_error + 'a) list \<Rightarrow> js_error + 'a list" where
  "promise_all [] = Inr []"
| "promise_all (p # ps) =
     (case p of
        Inl err \<Rightarrow> Inl err
      | Inr x \<Rightarrow> (case promise_all ps of Inl err \<Rightarrow> Inl err | Inr xs \<Rightarrow> Inr (x # xs)))"

text \<open>The comparator \<^verbatim>\<open>(a, b) => b.date - a.date\<close>.\<close>

definition newest_first :: "article \<Rightarrow> article \<Rightarrow> js_number" where
  "newest_first a b = date_minus (date b) (date a)"

definition fetchMixedNews :: "env \<Rightarrow> topic list \<Rightarrow> js_error + article list" where
  "fetchMixedNews e topics =
     (let q = storiesPerTopic (length topics);
          promises = map (fetchTopic e q) topics
      in case promise_all promises of
           Inl err \<Rightarrow> Inl err
         | Inr results \<Rightarrow>
             (let allArticles = concat results;
                  sorted_articles = js_sort newest_first allArticles
              in Inr (take 8 sorted_articles)))"

subsection \<open>\<^verbatim>\<open>renderTelegramMessage\<close>\<close>

text \<open>The non-ASCII characters of the source's literals, as UTF-16 code units.\<close>

definition warning_sign :: js_string where
  "warning_sign = [0x26A0, 0xFE0F]"

definition hot_beverage :: js_string where
  "hot_beverage = [0x2615]"

definition small_blue_diamond :: js_string where
  "small_blue_diamond = [0xD83D, 0xDD39]"

definition calendar :: js_string where
  "calendar = [0xD83D, 0xDCC5]"

definition magnifying_glass :: js_string where
  "magnifying_glass = [0xD83D, 0xDD0D]"

definition check_mark :: js_string where
  "check_mark = [0x2705]"

definition rocket :: js_string where
  "rocket = [0xD83D, 0xDE80]"

definition gear :: js_string where
  "gear = [0x2699, 0xFE0F]"

definition no_news :: js_string where
  "no_news = warning_sign @ js '' No news found right now.''"

definition digest_title :: js_string where
  "digest_title = hot_beverage @ js '' **Your Daily Digest**'' @ nl"

definition topics_line :: "topic list \<Rightarrow> js_string" where
  "topics_line topics = js ''_Topics: '' @ join (js '', '') topics @ js ''_'' @ nl @ nl"

text \<open>The two lines that the \<^verbatim>\<open>forEach\<close> appends for one article.\<close>

definition article_block :: "article \<Rightarrow> js_string" where
  "article_block a =
     small_blue_diamond @ js '' *'' @ heading a @ js ''*'' @ nl
     @ js ''[Read more]('' @ url a @ js '')'' @ nl @ nl"

definition digest_footer :: js_string where
  "digest_footer = calendar @ js '' _You will receive this daily at 9:00 AM._''"

definition renderTelegramMessage :: "article list \<Rightarrow> topic list \<Rightarrow> js_string" where
  "renderTelegramMessage newsData topics =
     (if newsData = [] then no_news
      else digest_title @ topics_line topics
           @ foldl (\<lambda>message a. message @ article_block a) [] newsData
           @ digest_footer)"

subsection \<open>\<^verbatim>\<open>sendDigestToUser\<close>\<close>

definition use_update :: js_string where
  "use_update = warning_sign @ js '' Use /update to setup your topics.''"

definition fetching :: js_string where
  "fetching = magnifying_glass @ js '' Fetching latest headlines...''"

text \<open>
  The result is the outcome of the returned promise and the Bot API calls made, in order.
  The function reads \<^verbatim>\<open>userPreferences\<close> and writes nothing.
\<close>

definition sendDigestToUser :: "env \<Rightarrow> chat_id \<Rightarrow> bot_state \<Rightarrow> outcome \<times> tg_call list" where
  "sendDigestToUser e chatId s =
     (case map_of (userPreferences s) chatId of
        None \<Rightarrow> (let c = SendMessage chatId use_update False in (tg e c, [c]))
      | Some topics \<Rightarrow>
          if length topics = 0 then (let c = SendMessage chatId use_update False in (tg e c, [c]))
          else
            (let c1 = SendMessage chatId fetching False in
             case tg e c1 of
               Rejected err \<Rightarrow> (Rejected err, [c1])
             | Resolved \<Rightarrow>
                 (case fetchMixedNews e topics of
                    Inl err \<Rightarrow> (Rejected err, [c1])
                  | Inr newsData \<Rightarrow>
                      (let finalMessage = renderTelegramMessage newsData topics;
                           c2 = SendMessage chatId finalMessage True
                       in (tg e c2, [c1, c2])))))"

subsection \<open>Keyboard and menu\<close>

text \<open>The \<^verbatim>\<open>for\<close> loop that pushes \<^verbatim>\<open>buttons.slice(i, i + 2)\<close> for \<open>i = 0, 2, 4, ...\<close>\<close>

fun rows_of_two :: "'a list \<Rightarrow> 'a list list" where
  "rows_of_two [] = []"
| "rows_of_two [x] = [[x]]"
| "rows_of_two (x # y # zs) = [x, y] # rows_of_two zs"

definition getTopicKeyboard :: "topic js_set \<Rightarrow> keyboard" where
  "getTopicKeyboard selectedTopics =
     (let buttons = map (\<lambda>t. Button (if set_has selectedTopics t then check_mark @ js '' '' @ t else t)
                                   (js ''toggle_'' @ t)) AVAILABLE_TOPICS
      in rows_of_two buttons @ [[Button (rocket @ js '' Done & Fetch News'') (js ''done_selection'')]])"

text \<open>
  A handler returns the outcome of its promise, the Bot API calls it made, and the new
  state. \<^verbatim>\<open>showMenu\<close> does not await \<^verbatim>\<open>ctx.reply\<close>: the handler itself never rejects.
\<close>

type_synonym handler_result = "outcome \<times> tg_call list \<times> bot_state"

definition state_of :: "handler_result \<Rightarrow> bot_state" where
  "state_of r = snd (snd r)"

definition calls_of :: "handler_result \<Rightarrow> tg_call list" where
  "calls_of r = fst (snd r)"

definition showMenu :: "env \<Rightarrow> chat_id \<Rightarrow> bot_state \<Rightarrow> handler_result" where
  "showMenu e chatId s =
     (let existingTopics = (case map_of (userPreferences s) chatId of None \<Rightarrow> [] | Some ts \<Rightarrow> ts);
          initialSet = new_Set existingTopics;
          s' = s\<lparr>selectionSession := AList.update chatId initialSet (selectionSession s)\<rparr>
      in (Resolved, [Reply chatId (gear @ js '' Configure Your Feed'') (getTopicKeyboard initialSet)], s'))"

subsection \<open>The \<^verbatim>\<open>toggle_\<close> and \<^verbatim>\<open>done_selection\<close> actions\<close>

text \<open>
  The body of the toggle action for the captured topic. A failure of
  \<^verbatim>\<open>editMessageReplyMarkup\<close> is swallowed by the empty \<^verbatim>\<open>catch\<close>; the outcome is that of
  \<^verbatim>\<open>answerCbQuery\<close>.
\<close>

definition toggle :: "env \<Rightarrow> chat_id \<Rightarrow> topic \<Rightarrow> bot_state \<Rightarrow> handler_result" where
  "toggle e chatId t s =
     (let selected = (case map_of (selectionSession s) chatId of None \<Rightarrow> new_Set [] | Some x \<Rightarrow> x);
          selected' = (if set_has selected t then set_delete selected t else set_add selected t);
          s' = s\<lparr>selectionSession := AList.update chatId selected' (selectionSession s)\<rparr>;
          c1 = EditMessageReplyMarkup chatId (getTopicKeyboard selected');
          c2 = AnswerCbQuery chatId None
      in (tg e c2, [c1, c2], s'))"

definition select_one :: js_string where
  "select_one = js ''Select at least one!''"

definition preferences_updated :: js_string where
  "preferences_updated = check_mark @ js '' Preferences Updated!''"

definition done_selection :: "env \<Rightarrow> chat_id \<Rightarrow> bot_state \<Rightarrow> handler_result" where
  "done_selection e chatId s =
     (case map_of (selectionSession s) chatId of
        None \<Rightarrow> (let c = AnswerCbQuery chatId (Some select_one) in (tg e c, [c], s))
      | Some selected \<Rightarrow>
          if length selected = 0 then (let c = AnswerCbQuery chatId (Some select_one) in (tg e c, [c], s))
          else
            (let s' = s\<lparr>userPreferences := AList.update chatId (array_from selected) (userPreferences s),
                        selectionSession := AList.delete chatId (selectionSession s)\<rparr>;
                 c1 = EditMessageText chatId preferences_updated
             in case tg e c1 of
                  Rejected err \<Rightarrow> (Rejected err, [c1], s')
                | Resolved \<Rightarrow>
                    (case sendDigestToUser e chatId s' of (r, calls) \<Rightarrow> (r, c1 # calls, s'))))"

subsection \<open>The scheduler\<close>

text \<open>
  The \<^verbatim>\<open>for ... of userPreferences.entries()\<close> loop of the daily job: the keys in insertion
  order; an \<^verbatim>\<open>await\<close> that rejects leaves the loop.
\<close>

fun cron_loop :: "env \<Rightarrow> chat_id list \<Rightarrow> bot_state \<Rightarrow> outcome \<times> tg_call list" where
  "cron_loop e [] s = (Resolved, [])"
| "cron_loop e (chatId # rest) s =
     (case sendDigestToUser e chatId s of
        (Rejected err, calls) \<Rightarrow> (Rejected err, calls)
      | (Resolved, calls) \<Rightarrow>
          (case cron_loop e rest s of (r, calls') \<Rightarrow> (r, calls @ calls')))"

definition cron_job :: "env \<Rightarrow> bot_state \<Rightarrow> outcome \<times> tg_call list" where
  "cron_job e s = cron_loop e (map fst (userPreferences s)) s"

subsection \<open>Dispatch\<close>

text \<open>
  The pattern \<^verbatim>\<open>/^toggle_(.+)$/\<close> on the callback data: the prefix, then one or more code
  units none of which is a line terminator (\<^verbatim>\<open>.\<close> without the \<^verbatim>\<open>s\<close> flag), up to the end
  of the input. The result is the capture group.
\<close>

definition line_terminators :: "16 word list" where
  "line_terminators = [0x000A, 0x000D, 0x2028, 0x2029]"

definition match_toggle :: "js_string \<Rightarrow> js_string option" where
  "match_toggle d =
     (let p = js ''toggle_''; rest = drop (length p) d
      in if take (length p) d = p \<and> rest \<noteq> [] \<and> list_all (\<lambda>c. c \<notin> set line_terminators) rest
         then Some rest else None)"

datatype event =
    Start chat_id
  | Update chat_id
  | Callback chat_id js_string
  | Cron

text \<open>
  The handlers in the order of their registration: \<^verbatim>\<open>bot.start\<close>, the command
  \<^verbatim>\<open>update\<close>, the toggle action, the action \<^verbatim>\<open>done_selection\<close>; a callback that matches
  neither action is passed on and changes nothing. \<open>Cron\<close> is a tick of the scheduler.
\<close>

fun handle :: "env \<Rightarrow> event \<Rightarrow> bot_state \<Rightarrow> handler_result" where
  "handle e (Start chatId) s = showMenu e chatId s"
| "handle e (Update chatId) s = showMenu e chatId s"
| "handle e (Callback chatId d) s =
     (case match_toggle d of
        Some t \<Rightarrow> toggle e chatId t s
      | None \<Rightarrow> if d = js ''done_selection'' then done_selection e chatId s else (Resolved, [], s))"
| "handle e Cron s = (case cron_job e s of (r, calls) \<Rightarrow> (r, calls, s))"

text \<open>The states the bot can be in: any events, under any behaviour of the environment.\<close>

inductive reachable :: "bot_state \<Rightarrow> bool" where
  initial: "reachable initial_state"
| step: "reachable s \<Longrightarrow> reachable (state_of (handle e ev s))"

subsection \<open>Example inputs\<close>

definition crypto_items :: "item list" where
  "crypto_items =
     [\<lparr>title = js ''Coin up'', link = js ''https://n.example/1'', pubDate = Time 1000\<rparr>,
      \<lparr>title = js ''Coin down'', link = js ''https://n.example/2'', pubDate = Time 3000\<rparr>,
      \<lparr>title = js ''Coin flat'', link = js ''https://n.example/3'', pubDate = Time 2000\<rparr>]"

text \<open>Only the feed of the topic Crypto can be fetched; every Bot API call succeeds.\<close>

definition crypto_only :: env where
  "crypto_only =
     \<lparr>parseURL = (\<lambda>t. if t = js ''Crypto'' then Inr crypto_items else Inl (FeedError 503)),
      telegram = (\<lambda>c. True)\<rparr>"

text \<open>
  Feeds in which some items have no publish date: every Bot API call succeeds, the feed
  of Crypto has five items, two of them undated, the feed of Sports an old item and an
  undated one, the feed of Health one recent item.
\<close>

definition undated_crypto_items :: "item list" where
  "undated_crypto_items =
     [\<lparr>title = js ''Coin up'', link = js ''https://n.example/1'', pubDate = Time 1000\<rparr>,
      \<lparr>title = js ''Coin talk'', link = js ''https://n.example/4'', pubDate = InvalidDate\<rparr>,
      \<lparr>title = js ''Coin down'', link = js ''https://n.example/2'', pubDate = Time 3000\<rparr>,
      \<lparr>title = js ''Coin chat'', link = js ''https://n.example/5'', pubDate = InvalidDate\<rparr>,
      \<lparr>title = js ''Coin flat'', link = js ''https://n.example/3'', pubDate = Time 2000\<rparr>]"

definition sports_items :: "item list" where
  "sports_items =
     [\<lparr>title = js ''Old match'', link = js ''https://n.example/6'', pubDate = Time 1000\<rparr>,
      \<lparr>title = js ''Some match'', link = js ''https://n.example/7'', pubDate = InvalidDate\<rparr>]"

definition health_items :: "item list" where
  "health_items =
     [\<lparr>title = js ''New cure'', link = js ''https://n.example/8'', pubDate = Time 3000\<rparr>]"

definition undated_feeds :: env where
  "undated_feeds =
     \<lparr>parseURL = (\<lambda>t. if t = js ''Crypto'' then Inr undated_crypto_items
                       else if t = js ''Sports'' then Inr sports_items
                       else if t = js ''Health'' then Inr health_items
                       else Inl (FeedError 503)),
      telegram = (\<lambda>c. True)\<rparr>"


definition two_users :: bot_state where
  "two_users =
     \<lparr>userPreferences = [(1, [js ''Crypto'']), (2, [js ''Crypto''])], selectionSession = []\<rparr>"

text \<open>The same story, found under two topics.\<close>

definition same_story :: "article list" where
  "same_story =
     [\<lparr>topic = js ''Technology'', heading = js ''Chip news'', url = js ''https://n.example/9'', date = Time 5000\<rparr>,
      \<lparr>topic = js ''Science'', heading = js ''Chip news'', url = js ''https://n.example/9'', date = Time 5000\<rparr>]"

text \<open>User 7 opens the menu, selects Technology, then Sports, then commits.\<close>

definition menu_opened :: bot_state where
  "menu_opened = state_of (handle crypto_only (Start 7) initial_state)"

definition two_selected :: bot_state where
  "two_selected =
     state_of (handle crypto_only (Callback 7 (js ''toggle_Sports''))
       (state_of (handle crypto_only (Callback 7 (js ''toggle_Technology'')) menu_opened)))"

definition committed :: bot_state where
  "committed = state_of (handle crypto_only (Callback 7 (js ''done_selection'')) two_selected)"

subsection \<open>Notions used in the statements\<close>

text \<open>
  The selection of a user as the toggle action reads it:
  \<^verbatim>\<open>selectionSession.get(chatId) || new Set()\<close>, as a set.
\<close>

definition selection :: "bot_state \<Rightarrow> chat_id \<Rightarrow> topic set" where
  "selection s chatId = (case map_of (selectionSession s) chatId of None \<Rightarrow> {} | Some x \<Rightarrow> set x)"

text \<open>
  \<open>not_older d d'\<close>: both dates are valid and the time value of \<open>d\<close> is at least that of
  \<open>d'\<close> (\<^verbatim>\<open>d >= d'\<close>, which is false when one of them is invalid). A list of articles is
  sorted newest first when every article is not older than the ones after it.
\<close>

fun not_older :: "js_date \<Rightarrow> js_date \<Rightarrow> bool" where
  "not_older (Time x) (Time y) = (y \<le> x)"
| "not_older (Time x) InvalidDate = False"
| "not_older InvalidDate d = False"

definition sorted_newest_first :: "article list \<Rightarrow> bool" where
  "sorted_newest_first arts = sorted_wrt (\<lambda>a b. not_older (date a) (date b)) arts"

definition dated :: "item \<Rightarrow> bool" where
  "dated i = (pubDate i \<noteq> InvalidDate)"

text \<open>The number of positions at which \<open>p\<close> occurs in \<open>s\<close>.\<close>

fun occurrences :: "'a list \<Rightarrow> 'a list \<Rightarrow> nat" where
  "occurrences p [] = (if p = [] then 1 else 0)"
| "occurrences p (x # xs) = (if prefix p (x # xs) then 1 else 0) + occurrences p xs"

section \<open>Properties\<close>

subsection \<open>Sorting\<close>

lemma set_js_insert: "set (js_insert cmp x xs) = insert x (set xs)"
  by (induction xs) auto

lemma mset_js_insert: "mset (js_insert cmp x xs) = add_mset x (mset xs)"
  by (induction xs) auto

lemma mset_js_sort: "mset (js_sort cmp xs) = mset xs"
  by (induction xs) (simp_all add: mset_js_insert)

text \<open>On articles that all have a valid date the comparator is an ordering, and the sort sorts.\<close>

lemma valid_date: "d \<noteq> InvalidDate \<longleftrightarrow> (\<exists>x. d = Time x)"
  by (cases d) simp_all

lemma sorted_js_insert_newest:
  "date x \<noteq> InvalidDate \<Longrightarrow> \<forall>a \<in> set xs. date a \<noteq> InvalidDate \<Longrightarrow>
   sorted_wrt (\<lambda>a b. not_older (date a) (date b)) xs \<Longrightarrow>
   sorted_wrt (\<lambda>a b. not_older (date a) (date b)) (js_insert newest_first x xs)"
proof (induction xs)
  case Nil
  then show ?case by simp
next
  case (Cons y ys)
  from Cons.prems obtain tx ty where tx: "date x = Time tx" and ty: "date y = Time ty"
    by (auto simp: valid_date)
  have cmp: "sort_compare (newest_first x y) = ty - tx"
    by (simp add: newest_first_def tx ty)
  show ?case
  proof (cases "ty \<le> tx")
    case True
    have "not_older (date x) (date b)" if "b \<in> set ys" for b
    proof -
      from Cons.prems that obtain tb where tb: "date b = Time tb" by (auto simp: valid_date)
      from Cons.prems that have "not_older (date y) (date b)" by simp
      with True show ?thesis by (simp add: tx ty tb)
    qed
    with True Cons.prems show ?thesis by (simp add: cmp tx ty)
  next
    case False
    have "sorted_wrt (\<lambda>a b. not_older (date a) (date b)) (js_insert newest_first x ys)"
      using Cons.IH Cons.prems by simp
    with False Cons.prems show ?thesis
      by (auto simp: cmp tx ty set_js_insert)
  qed
qed

lemma sorted_js_sort_newest:
  "\<forall>a \<in> set xs. date a \<noteq> InvalidDate \<Longrightarrow>
   sorted_wrt (\<lambda>a b. not_older (date a) (date b)) (js_sort newest_first xs)"
proof (induction xs)
  case Nil
  then show ?case by simp
next
  case (Cons x xs)
  moreover have "set (js_sort newest_first xs) = set xs"
    using mset_js_sort [of newest_first xs] by (metis set_mset_mset)
  ultimately show ?case by (simp add: sorted_js_insert_newest)
qed

subsection \<open>The fetcher\<close>

text \<open>What one topic contributes: nothing when its fetch fails.\<close>

lemma fetchTopic_cases:
  "fetchTopic e q t =
     Inr (case parseURL e t of Inl err \<Rightarrow> [] | Inr items \<Rightarrow> map (mk_article t) (slice0 q items))"
  by (simp add: fetchTopic_def split: sum.splits)

lemma promise_all_Inr: "promise_all (map Inr xs) = Inr xs"
  by (induction xs) simp_all

lemma promise_all_fetchTopic:
  "promise_all (map (fetchTopic e q) ts) = Inr (map (\<lambda>t. projr (fetchTopic e q t)) ts)"
proof -
  have "map (fetchTopic e q) ts = map Inr (map (\<lambda>t. projr (fetchTopic e q t)) ts)"
    by (simp add: fetchTopic_cases)
  then show ?thesis by (simp only: promise_all_Inr)
qed

lemma fetchMixedNews_eq:
  "fetchMixedNews e ts =
     Inr (take 8 (js_sort newest_first
            (concat (map (\<lambda>t. projr (fetchTopic e (storiesPerTopic (length ts)) t)) ts))))"
  by (simp add: fetchMixedNews_def Let_def promise_all_fetchTopic)

lemma concat_map_filter_nonempty:
  "(\<And>x. x \<in> set xs \<Longrightarrow> \<not> P x \<Longrightarrow> f x = []) \<Longrightarrow> concat (map f (filter P xs)) = concat (map f xs)"
  by (induction xs) auto

text \<open>The ceiling of \<open>8 / n\<close> is the least \<open>q\<close> with \<open>8 \<le> q * n\<close>.\<close>

lemma ceiling_8_div:
  assumes n: "0 < n"
  defines "q \<equiv> nat \<lceil>8 / real n\<rceil>"
  shows "int q = \<lceil>8 / real n\<rceil> \<and> 8 \<le> q * n \<and> q * n < 8 + n"
proof -
  let ?c = "\<lceil>8 / real n\<rceil>"
  have pos: "0 < ?c" using n by (simp add: zero_less_ceiling)
  then have qc: "real q = of_int ?c" by (simp add: q_def)
  have "8 \<le> of_int ?c * real n"
    using ceiling_divide_upper [of "real n" 8] n by simp
  then have "real 8 \<le> real (q * n)" by (simp add: qc)
  then have up: "8 \<le> q * n" by (simp only: of_nat_le_iff)
  have "(of_int ?c - 1) * real n < 8"
    using ceiling_divide_lower [of "real n" 8] n by simp
  then have "real (q * n) < real (8 + n)" by (simp add: qc algebra_simps)
  then have "q * n < 8 + n" by (simp only: of_nat_less_iff)
  moreover have "int q = ?c" unfolding q_def by (rule nat_0_le) (rule less_imp_le, rule pos)
  ultimately show ?thesis using up by simp
qed

lemma fetched_articles_dated:
  assumes "\<forall>t \<in> set T. \<forall>items. parseURL e t = Inr items \<longrightarrow> list_all dated (slice0 q items)"
  shows "\<forall>a \<in> set (concat (map (\<lambda>t. projr (fetchTopic e q t)) T)). date a \<noteq> InvalidDate"
proof
  fix a assume "a \<in> set (concat (map (\<lambda>t. projr (fetchTopic e q t)) T))"
  then obtain t where t: "t \<in> set T" and a: "a \<in> set (projr (fetchTopic e q t))" by auto
  show "date a \<noteq> InvalidDate"
  proof (cases "parseURL e t")
    case (Inl err)
    with a show ?thesis by (simp add: fetchTopic_def)
  next
    case (Inr items)
    with a obtain i where "i \<in> set (slice0 q items)" and "a = mk_article t i"
      by (auto simp: fetchTopic_def)
    moreover from assms t Inr have "list_all dated (slice0 q items)" by blast
    ultimately show ?thesis by (auto simp: list_all_iff dated_def mk_article_def)
  qed
qed

text \<open>
  C1, as the source has it. For every non-empty sequence of topics, \<^verbatim>\<open>fetchMixedNews\<close>
  resolves with a sequence of at most 8 articles; the sequence is sorted non-increasing by
  publish timestamp when every item taken from the feeds (the first items of each feed, up
  to the quota) has a valid publish date.
\<close>

theorem fetchMixedNews_length_sorted:
  "T \<noteq> [] \<Longrightarrow>
   \<exists>arts. fetchMixedNews e T = Inr arts \<and> length arts \<le> 8
        \<and> ((\<forall>t \<in> set T. \<forall>items. parseURL e t = Inr items \<longrightarrow>
               list_all dated (slice0 (storiesPerTopic (length T)) items))
            \<longrightarrow> sorted_newest_first arts)"
proof -
  let ?all = "concat (map (\<lambda>t. projr (fetchTopic e (storiesPerTopic (length T)) t)) T)"
  have "sorted_newest_first (take 8 (js_sort newest_first ?all))"
    if "\<forall>t \<in> set T. \<forall>items. parseURL e t = Inr items \<longrightarrow>
               list_all dated (slice0 (storiesPerTopic (length T)) items)"
    unfolding sorted_newest_first_def
    by (intro sorted_wrt_take sorted_js_sort_newest fetched_articles_dated that)
  then show ?thesis by (simp add: fetchMixedNews_eq)
qed

theorem fetchMixedNews_length_sorted_witness:
  "[js ''Sports'', js ''Crypto''] \<noteq> []
   \<and> list_all dated crypto_items
   \<and> (\<exists>arts. fetchMixedNews crypto_only [js ''Sports'', js ''Crypto''] = Inr arts
        \<and> length arts \<le> 8 \<and> sorted_newest_first arts)"
proof -
  have d: "list_all dated crypto_items"
    by (simp add: crypto_items_def dated_def)
  have "\<forall>t \<in> set [js ''Sports'', js ''Crypto'']. \<forall>items. parseURL crypto_only t = Inr items \<longrightarrow>
      list_all dated (slice0 (storiesPerTopic (length [js ''Sports'', js ''Crypto''])) items)"
    using d by (simp add: crypto_only_def storiesPerTopic_def crypto_items_def)
  with fetchMixedNews_length_sorted [of "[js ''Sports'', js ''Crypto'']" crypto_only] d
  show ?thesis by simp
qed

text \<open>
  C1 as stated fails: the feed of Sports has an item of time 1000 and an undated item, the
  feed of Health an item of time 3000. Each comparison involves the Invalid Date and gives
  \<^verbatim>\<open>NaN\<close>, the sort leaves the articles as they were collected, and the article of time
  1000 comes before the article of time 3000.
\<close>

theorem fetchMixedNews_undated_counterexample:
  "[js ''Sports'', js ''Health''] \<noteq> []
   \<and> fetchMixedNews undated_feeds [js ''Sports'', js ''Health''] =
       Inr [mk_article (js ''Sports'') (sports_items ! 0),
            mk_article (js ''Sports'') (sports_items ! 1),
            mk_article (js ''Health'') (health_items ! 0)]
   \<and> date (mk_article (js ''Sports'') (sports_items ! 0)) = Time 1000
   \<and> date (mk_article (js ''Sports'') (sports_items ! 1)) = InvalidDate
   \<and> date (mk_article (js ''Health'') (health_items ! 0)) = Time 3000
   \<and> \<not> sorted_newest_first
          [mk_article (js ''Sports'') (sports_items ! 0),
           mk_article (js ''Sports'') (sports_items ! 1),
           mk_article (js ''Health'') (health_items ! 0)]"
  by (simp add: fetchMixedNews_def fetchTopic_def undated_feeds_def sports_items_def
      health_items_def js_def storiesPerTopic_def mk_article_def newest_first_def
      sorted_newest_first_def)

text \<open>
  C2. A topic whose fetch fails contributes no article, and the call still resolves: the
  result is the merge (sorted, cut to 8) of what the topics that succeeded contribute,
  each cut to the quota of the whole topic list.
\<close>

theorem fetchMixedNews_failures_isolated:
  "fetchMixedNews e T =
     Inr (take 8 (js_sort newest_first
            (concat (map (\<lambda>t. map (mk_article t) (slice0 (storiesPerTopic (length T)) (projr (parseURL e t))))
                         (filter (\<lambda>t. \<not> isl (parseURL e t)) T)))))
   \<and> (\<forall>t. isl (parseURL e t) \<longrightarrow> fetchTopic e (storiesPerTopic (length T)) t = Inr [])"
proof -
  let ?q = "storiesPerTopic (length T)"
  let ?f = "\<lambda>t. projr (fetchTopic e ?q t)"
  let ?g = "\<lambda>t. map (mk_article t) (slice0 ?q (projr (parseURL e t)))"
  have failed: "?f t = []" if "isl (parseURL e t)" for t
    using that by (cases "parseURL e t") (simp_all add: fetchTopic_def)
  have ok: "?f t = ?g t" if "\<not> isl (parseURL e t)" for t
    using that by (cases "parseURL e t") (simp_all add: fetchTopic_def)
  have "concat (map ?f T) = concat (map ?f (filter (\<lambda>t. \<not> isl (parseURL e t)) T))"
    by (rule concat_map_filter_nonempty [symmetric]) (simp add: failed)
  also have "\<dots> = concat (map ?g (filter (\<lambda>t. \<not> isl (parseURL e t)) T))"
    by (rule arg_cong [where f = concat], rule map_cong) (simp_all add: ok)
  finally have "fetchMixedNews e T =
     Inr (take 8 (js_sort newest_first (concat (map ?g (filter (\<lambda>t. \<not> isl (parseURL e t)) T)))))"
    by (simp only: fetchMixedNews_eq)
  moreover have "\<forall>t. isl (parseURL e t) \<longrightarrow> fetchTopic e ?q t = Inr []"
    by (auto simp: fetchTopic_def split: sum.splits)
  ultimately show ?thesis by simp
qed

theorem fetchMixedNews_failures_isolated_witness:
  "isl (parseURL crypto_only (js ''Sports'')) \<and> \<not> isl (parseURL crypto_only (js ''Crypto''))
   \<and> fetchTopic crypto_only (storiesPerTopic 2) (js ''Sports'') = Inr []
   \<and> fetchMixedNews crypto_only [js ''Sports'', js ''Crypto''] =
       Inr [mk_article (js ''Crypto'') (crypto_items ! 1),
            mk_article (js ''Crypto'') (crypto_items ! 2),
            mk_article (js ''Crypto'') (crypto_items ! 0)]"
  using fetchMixedNews_failures_isolated [of crypto_only "[js ''Sports'', js ''Crypto'']"]
  by (simp add: crypto_only_def crypto_items_def js_def storiesPerTopic_def mk_article_def
      newest_first_def)

text \<open>
  C3, as the source has it. For a non-empty topic list the quota is \<open>\<lceil>8 / |T|\<rceil>\<close>, the
  least \<open>q\<close> with \<open>8 \<le> q * |T|\<close>; every topic contributes at most \<open>q\<close> articles, the first
  \<open>q\<close> items of its feed, and these are what is merged. For one topic the quota is 8 and
  the result is the first 8 items of its feed, in some order; the order is by date, newest
  first, when these items all have a valid publish date.
\<close>

theorem fetchMixedNews_quota:
  "T \<noteq> [] \<Longrightarrow>
   (\<exists>q. storiesPerTopic (length T) = Finite q
      \<and> int q = \<lceil>8 / real (length T)\<rceil> \<and> 8 \<le> q * length T \<and> q * length T < 8 + length T
      \<and> (\<forall>t items. parseURL e t = Inr items \<longrightarrow>
            fetchTopic e (storiesPerTopic (length T)) t = Inr (map (mk_article t) (take q items)))
      \<and> (\<exists>per_topic. promise_all (map (fetchTopic e (storiesPerTopic (length T))) T) = Inr per_topic
            \<and> (\<forall>arts \<in> set per_topic. length arts \<le> q)
            \<and> fetchMixedNews e T = Inr (take 8 (js_sort newest_first (concat per_topic)))))
   \<and> storiesPerTopic (length [t]) = Finite 8
   \<and> (\<forall>items. parseURL e t = Inr items \<longrightarrow>
        (\<exists>arts. fetchMixedNews e [t] = Inr arts
           \<and> mset arts = mset (map (mk_article t) (take 8 items))
           \<and> (list_all dated (take 8 items) \<longrightarrow> sorted_newest_first arts)))"
proof -
  assume "T \<noteq> []"
  then have n: "0 < length T" by simp
  define q where "q = nat \<lceil>8 / real (length T)\<rceil>"
  have sq: "storiesPerTopic (length T) = Finite q"
    using n by (simp add: storiesPerTopic_def q_def)
  have ceil: "int q = \<lceil>8 / real (length T)\<rceil> \<and> 8 \<le> q * length T \<and> q * length T < 8 + length T"
    unfolding q_def using n by (rule ceiling_8_div)
  have one: "\<forall>t items. parseURL e t = Inr items \<longrightarrow>
      fetchTopic e (storiesPerTopic (length T)) t = Inr (map (mk_article t) (take q items))"
    by (simp add: fetchTopic_def sq)
  let ?per = "map (\<lambda>t. projr (fetchTopic e (Finite q) t)) T"
  have len: "\<forall>arts \<in> set ?per. length arts \<le> q"
    by (auto simp: fetchTopic_def split: sum.splits)
  have merged: "\<exists>per_topic. promise_all (map (fetchTopic e (storiesPerTopic (length T))) T) = Inr per_topic
      \<and> (\<forall>arts \<in> set per_topic. length arts \<le> q)
      \<and> fetchMixedNews e T = Inr (take 8 (js_sort newest_first (concat per_topic)))"
    using len by (intro exI [of _ ?per]) (simp add: promise_all_fetchTopic fetchMixedNews_eq sq)
  have eight: "storiesPerTopic (length [t]) = Finite 8"
    by (simp add: storiesPerTopic_def)
  have single: "\<forall>items. parseURL e t = Inr items \<longrightarrow>
        (\<exists>arts. fetchMixedNews e [t] = Inr arts
           \<and> mset arts = mset (map (mk_article t) (take 8 items))
           \<and> (list_all dated (take 8 items) \<longrightarrow> sorted_newest_first arts))"
  proof (intro allI impI)
    fix items assume items: "parseURL e t = Inr items"
    let ?arts = "js_sort newest_first (map (mk_article t) (take 8 items))"
    have "fetchMixedNews e [t] = Inr (take 8 ?arts)"
      using items eight by (simp add: fetchMixedNews_eq fetchTopic_def)
    moreover have "length ?arts \<le> 8"
      using size_mset [of ?arts] by (simp add: mset_js_sort)
    ultimately have res: "fetchMixedNews e [t] = Inr ?arts"
      by simp
    have "sorted_newest_first ?arts" if "list_all dated (take 8 items)"
    proof -
      have "\<forall>a \<in> set (map (mk_article t) (take 8 items)). date a \<noteq> InvalidDate"
        using that by (auto simp: list_all_iff dated_def mk_article_def)
      then show ?thesis
        unfolding sorted_newest_first_def by (rule sorted_js_sort_newest)
    qed
    with res show "\<exists>arts. fetchMixedNews e [t] = Inr arts
           \<and> mset arts = mset (map (mk_article t) (take 8 items))
           \<and> (list_all dated (take 8 items) \<longrightarrow> sorted_newest_first arts)"
      by (simp add: mset_js_sort)
  qed
  from sq ceil one merged eight single show ?thesis by blast
qed

theorem fetchMixedNews_quota_witness:
  "[js ''Sports'', js ''Crypto'', js ''Health''] \<noteq> []
   \<and> storiesPerTopic (length [js ''Sports'', js ''Crypto'', js ''Health'']) = Finite 3
   \<and> parseURL crypto_only (js ''Crypto'') = Inr crypto_items
   \<and> list_all dated (take 8 crypto_items)
   \<and> fetchMixedNews crypto_only [js ''Crypto''] =
       Inr [mk_article (js ''Crypto'') (crypto_items ! 1),
            mk_article (js ''Crypto'') (crypto_items ! 2),
            mk_article (js ''Crypto'') (crypto_items ! 0)]
   \<and> sorted_newest_first
       [mk_article (js ''Crypto'') (crypto_items ! 1),
        mk_article (js ''Crypto'') (crypto_items ! 2),
        mk_article (js ''Crypto'') (crypto_items ! 0)]"
  using fetchMixedNews_quota [of "[js ''Sports'', js ''Crypto'', js ''Health'']" crypto_only "js ''Crypto''"]
  by (simp add: crypto_only_def crypto_items_def js_def storiesPerTopic_def mk_article_def
      newest_first_def fetchMixedNews_def fetchTopic_def dated_def sorted_newest_first_def)

text \<open>
  C3 as stated fails in its last part: the feed of the single topic Crypto has five items,
  the second and the fourth undated. Every comparison of neighbours gives \<^verbatim>\<open>NaN\<close>, and
  the five articles are returned in the order of the feed: time 1000 before time 3000.
\<close>

theorem fetchMixedNews_single_topic_counterexample:
  "parseURL undated_feeds (js ''Crypto'') = Inr undated_crypto_items
   \<and> storiesPerTopic (length [js ''Crypto'']) = Finite 8
   \<and> fetchMixedNews undated_feeds [js ''Crypto''] =
       Inr (map (mk_article (js ''Crypto'')) undated_crypto_items)
   \<and> map date (map (mk_article (js ''Crypto'')) undated_crypto_items) =
       [Time 1000, InvalidDate, Time 3000, InvalidDate, Time 2000]
   \<and> \<not> sorted_newest_first (map (mk_article (js ''Crypto'')) undated_crypto_items)"
  by (simp add: fetchMixedNews_def fetchTopic_def undated_feeds_def undated_crypto_items_def
      js_def storiesPerTopic_def mk_article_def newest_first_def sorted_newest_first_def)

subsection \<open>Sets and the selection session\<close>

lemma set_foldl_set_add: "set (foldl set_add acc xs) = set acc \<union> set xs"
  by (induction xs arbitrary: acc) (auto simp: set_add_def set_has_def)

lemma foldl_set_add_distinct: "distinct (acc @ xs) \<Longrightarrow> foldl set_add acc xs = acc @ xs"
  by (induction xs arbitrary: acc) (auto simp: set_add_def set_has_def)

lemma set_new_Set: "set (new_Set xs) = set xs"
  by (simp add: new_Set_def set_foldl_set_add)

lemma new_Set_distinct: "distinct xs \<Longrightarrow> new_Set xs = xs"
  using foldl_set_add_distinct [of "[]" xs] by (simp add: new_Set_def)

lemma match_toggle_done: "match_toggle (js ''done_selection'') = None"
  by (simp add: match_toggle_def js_def)

lemma showMenu_state:
  "state_of (showMenu e u s) =
     s\<lparr>selectionSession :=
         AList.update u (new_Set (case map_of (userPreferences s) u of None \<Rightarrow> [] | Some ts \<Rightarrow> ts))
           (selectionSession s)\<rparr>"
  by (simp add: showMenu_def state_of_def Let_def)

lemma toggle_state:
  "state_of (toggle e u t s) =
     s\<lparr>selectionSession :=
         AList.update u
           (let sel = (case map_of (selectionSession s) u of None \<Rightarrow> [] | Some x \<Rightarrow> x)
            in if t \<in> set sel then removeAll t sel else sel @ [t])
           (selectionSession s)\<rparr>"
  by (simp add: toggle_def state_of_def Let_def set_has_def set_delete_def set_add_def new_Set_def
      split: option.splits)

lemma done_selection_state:
  "state_of (done_selection e u s) =
     (case map_of (selectionSession s) u of
        None \<Rightarrow> s
      | Some selected \<Rightarrow>
          if selected = [] then s
          else s\<lparr>userPreferences := AList.update u selected (userPreferences s),
                 selectionSession := AList.delete u (selectionSession s)\<rparr>)"
  by (simp add: done_selection_def state_of_def Let_def array_from_def
      split: option.splits outcome.splits prod.splits)

lemma menu_opened_val: "menu_opened = \<lparr>userPreferences = [], selectionSession = [(7, [])]\<rparr>"
  by (simp add: menu_opened_def showMenu_state initial_state_def new_Set_def)

lemma two_selected_val:
  "two_selected =
     \<lparr>userPreferences = [], selectionSession = [(7, [js ''Technology'', js ''Sports''])]\<rparr>"
  by (simp add: two_selected_def menu_opened_val match_toggle_def js_def line_terminators_def
      toggle_state)

lemma committed_val:
  "committed = \<lparr>userPreferences = [(7, [js ''Technology'', js ''Sports''])], selectionSession = []\<rparr>"
  by (simp add: committed_def two_selected_val match_toggle_def js_def done_selection_state)

text \<open>
  C4. When the user has no selection session, or an empty one, the commit action only
  answers the callback with the warning (its outcome is that of this one call) and leaves
  the state, Preference Store and sessions, as it was.
\<close>

theorem done_selection_rejects_empty:
  "map_of (selectionSession s) u = None \<or> map_of (selectionSession s) u = Some [] \<Longrightarrow>
   handle e (Callback u (js ''done_selection'')) s =
     (tg e (AnswerCbQuery u (Some select_one)), [AnswerCbQuery u (Some select_one)], s)"
  by (auto simp: match_toggle_done done_selection_def Let_def)

theorem done_selection_rejects_empty_witness:
  "(map_of (selectionSession menu_opened) 7 = None \<or> map_of (selectionSession menu_opened) 7 = Some [])
   \<and> handle crypto_only (Callback 7 (js ''done_selection'')) menu_opened =
     (Resolved, [AnswerCbQuery 7 (Some select_one)], menu_opened)"
  using done_selection_rejects_empty [of menu_opened 7 crypto_only]
  by (simp add: menu_opened_val tg_def crypto_only_def)

text \<open>
  C5. When the user's selection session is a non-empty set \<open>S\<close>, the commit action stores
  the elements of \<open>S\<close> (in insertion order) as the user's Preference Record and removes the
  session; opening the menu afterwards creates a session from the stored record, which has
  the elements of \<open>S\<close> again.
\<close>

theorem done_selection_commits:
  "map_of (selectionSession s) u = Some S \<Longrightarrow> S \<noteq> [] \<Longrightarrow>
   (let s' = state_of (handle e (Callback u (js ''done_selection'')) s) in
      map_of (userPreferences s') u = Some S
      \<and> map_of (selectionSession s') u = None
      \<and> map_of (selectionSession (state_of (handle e' (Start u) s'))) u = Some (new_Set S)
      \<and> set (new_Set S) = set S
      \<and> (distinct S \<longrightarrow> new_Set S = S))"
  by (simp add: match_toggle_done done_selection_state showMenu_state update_conv' delete_conv'
      set_new_Set new_Set_distinct)

theorem done_selection_commits_witness:
  "map_of (selectionSession two_selected) 7 = Some [js ''Technology'', js ''Sports'']
   \<and> [js ''Technology'', js ''Sports''] \<noteq> ([] :: topic list)
   \<and> distinct [js ''Technology'', js ''Sports'']
   \<and> userPreferences (state_of (handle crypto_only (Callback 7 (js ''done_selection'')) two_selected))
        = [(7, [js ''Technology'', js ''Sports''])]
   \<and> selectionSession (state_of (handle crypto_only (Callback 7 (js ''done_selection'')) two_selected)) = []
   \<and> map_of (selectionSession (state_of (handle crypto_only (Start 7)
         (state_of (handle crypto_only (Callback 7 (js ''done_selection'')) two_selected))))) 7
        = Some [js ''Technology'', js ''Sports'']"
  using done_selection_commits [of two_selected 7 "[js ''Technology'', js ''Sports'']" crypto_only crypto_only]
  by (simp add: two_selected_val match_toggle_def done_selection_state showMenu_state js_def
      new_Set_def set_add_def set_has_def)

text \<open>
  C6. Toggling the same topic twice for the same user gives back the selection, as a set,
  that the user had before (an absent session counts as the empty set).
\<close>

theorem toggle_twice:
  "selection (state_of (toggle e2 u t (state_of (toggle e1 u t s)))) u = selection s u"
  by (auto simp: selection_def toggle_state update_conv' Let_def split: option.splits)

theorem toggle_twice_witness:
  "selection two_selected 7 = {js ''Technology'', js ''Sports''}
   \<and> selection (state_of (toggle crypto_only 7 (js ''Technology'') two_selected)) 7 = {js ''Sports''}
   \<and> selection (state_of (toggle crypto_only 7 (js ''Technology'')
        (state_of (toggle crypto_only 7 (js ''Technology'') two_selected)))) 7
       = {js ''Technology'', js ''Sports''}"
  using toggle_twice [of crypto_only 7 "js ''Technology''" crypto_only two_selected]
  by (auto simp add: two_selected_val selection_def toggle_state js_def)

subsection \<open>The Preference Store\<close>

lemma in_set_update:
  "(k', v') \<in> set (AList.update k v al) \<Longrightarrow> (k', v') = (k, v) \<or> (k', v') \<in> set al"
  by (induction al) (auto split: if_splits)

text \<open>Only a commit of a non-empty selection writes an entry.\<close>

lemma handle_prefs:
  "(u, ts) \<in> set (userPreferences (state_of (handle e ev s))) \<Longrightarrow>
   (u, ts) \<in> set (userPreferences s) \<or> ts \<noteq> []"
proof (cases ev)
  case (Callback c d)
  then show "(u, ts) \<in> set (userPreferences (state_of (handle e ev s))) \<Longrightarrow> ?thesis"
    by (auto simp: toggle_state done_selection_state state_of_def [of "(Resolved, [], s)"]
        dest: in_set_update split: option.splits if_splits)
next
  case Cron
  then show "(u, ts) \<in> set (userPreferences (state_of (handle e ev s))) \<Longrightarrow> ?thesis"
    by (simp add: state_of_def split: prod.splits)
qed (simp_all add: showMenu_state)

text \<open>
  C7. In every reachable state (any sequence of menu openings, callbacks and scheduler
  ticks, under any behaviour of the feeds and of the Bot API) every Preference Record in
  the Preference Store has at least one topic.
\<close>

theorem preference_records_nonempty:
  "reachable s \<Longrightarrow> (u, ts) \<in> set (userPreferences s) \<Longrightarrow> ts \<noteq> []"
proof (induction arbitrary: u ts rule: reachable.induct)
  case initial
  then show ?case by (simp add: initial_state_def)
next
  case (step s e ev)
  then show ?case using handle_prefs by blast
qed

theorem preference_records_nonempty_witness:
  "reachable committed
   \<and> (7, [js ''Technology'', js ''Sports'']) \<in> set (userPreferences committed)
   \<and> [js ''Technology'', js ''Sports''] \<noteq> ([] :: topic list)"
proof -
  have r: "reachable committed"
    unfolding committed_def two_selected_def menu_opened_def
    by (intro reachable.step reachable.initial)
  have m: "(7, [js ''Technology'', js ''Sports'']) \<in> set (userPreferences committed)"
    by (simp add: committed_val)
  from preference_records_nonempty [OF r m] r m show ?thesis by simp
qed

subsection \<open>The scheduler\<close>




text \<open>The store of the example is one the bot can be in: two users have committed Crypto.\<close>

lemma two_users_reachable: "reachable two_users"
proof -
  have "two_users =
      state_of (handle crypto_only (Callback 2 (js ''done_selection''))
        (state_of (handle crypto_only (Callback 2 (js ''toggle_Crypto''))
          (state_of (handle crypto_only (Start 2)
            (state_of (handle crypto_only (Callback 1 (js ''done_selection''))
              (state_of (handle crypto_only (Callback 1 (js ''toggle_Crypto''))
                (state_of (handle crypto_only (Start 1) initial_state)))))))))))"
    by (simp add: two_users_def initial_state_def showMenu_state toggle_state done_selection_state
        match_toggle_def js_def line_terminators_def new_Set_def)
  moreover have "reachable \<dots>"
    by (intro reachable.step reachable.initial)
  ultimately show ?thesis by (rule ssubst)
qed




subsection \<open>The renderer\<close>

lemma foldl_article_blocks:
  "foldl (\<lambda>message a. message @ article_block a) acc D = acc @ concat (map article_block D)"
  by (induction D arbitrary: acc) simp_all

lemma renderTelegramMessage_nonempty:
  "D \<noteq> [] \<Longrightarrow>
   renderTelegramMessage D T = digest_title @ topics_line T @ concat (map article_block D) @ digest_footer"
  by (simp add: renderTelegramMessage_def foldl_article_blocks)

lemma concat_map_nth:
  "i < length D \<Longrightarrow>
   concat (map f D) = concat (map f (take i D)) @ f (D ! i) @ concat (map f (drop (Suc i) D))"
proof -
  assume "i < length D"
  then have "D = take i D @ D ! i # drop (Suc i) D" by (rule id_take_nth_drop)
  then have "concat (map f D) = concat (map f (take i D @ D ! i # drop (Suc i) D))" by simp
  then show ?thesis by simp
qed

lemma sublist_heading: "sublist (heading a) (article_block a)"
  unfolding article_block_def sublist_def
  by (intro exI [of _ "small_blue_diamond @ js '' *''"] exI) simp

lemma sublist_url: "sublist (url a) (article_block a)"
  unfolding article_block_def sublist_def
  by (intro exI [of _ "small_blue_diamond @ js '' *'' @ heading a @ js ''*'' @ nl @ js ''[Read more](''"] exI) simp

lemma sublist_append_before: "sublist x m \<Longrightarrow> sublist x (p @ m)"
  unfolding sublist_def by (metis append.assoc)

lemma sublist_append_after: "sublist x m \<Longrightarrow> sublist x (m @ q)"
  unfolding sublist_def by (metis append.assoc)

lemma sublist_mid: "sublist x m \<Longrightarrow> sublist x (p @ m @ q)"
  by (intro sublist_append_before sublist_append_after)

lemma sublist_concat_map: "a \<in> set D \<Longrightarrow> sublist (f a) (concat (map f D))"
  by (induction D) (auto intro: sublist_append_before sublist_append_after)

lemma sublist_join: "t \<in> set T \<Longrightarrow> sublist t (join sep T)"
  by (induction sep T rule: join.induct)
     (auto intro: sublist_append_before sublist_append_after)

text \<open>
  C9, as the source has it. For a non-empty digest the message is the title line, the line
  of the topics (joined by a comma and a space, in the order given), one block per article
  in the order of the digest (the heading and the URL of the article in their fixed
  places), and the footer. So every heading, every URL and every topic occurs in the
  message at least once.
\<close>

theorem renderTelegramMessage_blocks:
  "D \<noteq> [] \<Longrightarrow>
   renderTelegramMessage D T =
     digest_title @ (js ''_Topics: '' @ join (js '', '') T @ js ''_'' @ nl @ nl)
     @ concat (map article_block D) @ digest_footer
   \<and> (\<forall>i < length D.
        renderTelegramMessage D T =
          (digest_title @ topics_line T @ concat (map article_block (take i D)))
          @ (small_blue_diamond @ js '' *'' @ heading (D ! i) @ js ''*'' @ nl
             @ js ''[Read more]('' @ url (D ! i) @ js '')'' @ nl @ nl)
          @ (concat (map article_block (drop (Suc i) D)) @ digest_footer))
   \<and> (\<forall>a \<in> set D. sublist (heading a) (renderTelegramMessage D T)
                   \<and> sublist (url a) (renderTelegramMessage D T))
   \<and> (\<forall>t \<in> set T. sublist t (renderTelegramMessage D T))"
proof -
  assume D: "D \<noteq> []"
  note r = renderTelegramMessage_nonempty [OF D, of T]
  have 1: "renderTelegramMessage D T =
     digest_title @ (js ''_Topics: '' @ join (js '', '') T @ js ''_'' @ nl @ nl)
     @ concat (map article_block D) @ digest_footer"
    by (simp add: r topics_line_def)
  have 2: "\<forall>i < length D.
        renderTelegramMessage D T =
          (digest_title @ topics_line T @ concat (map article_block (take i D)))
          @ (small_blue_diamond @ js '' *'' @ heading (D ! i) @ js ''*'' @ nl
             @ js ''[Read more]('' @ url (D ! i) @ js '')'' @ nl @ nl)
          @ (concat (map article_block (drop (Suc i) D)) @ digest_footer)"
  proof (intro allI impI)
    fix i assume "i < length D"
    from concat_map_nth [OF this, of article_block]
    show "renderTelegramMessage D T =
          (digest_title @ topics_line T @ concat (map article_block (take i D)))
          @ (small_blue_diamond @ js '' *'' @ heading (D ! i) @ js ''*'' @ nl
             @ js ''[Read more]('' @ url (D ! i) @ js '')'' @ nl @ nl)
          @ (concat (map article_block (drop (Suc i) D)) @ digest_footer)"
      by (simp add: r article_block_def)
  qed
  have blocks: "sublist x (renderTelegramMessage D T)" if "sublist x (concat (map article_block D))" for x
    unfolding r using that sublist_mid [of x _ "digest_title @ topics_line T" digest_footer] by simp
  have 3: "\<forall>a \<in> set D. sublist (heading a) (renderTelegramMessage D T)
                   \<and> sublist (url a) (renderTelegramMessage D T)"
  proof
    fix a assume a: "a \<in> set D"
    have "sublist (article_block a) (concat (map article_block D))"
      using a by (rule sublist_concat_map)
    then have "sublist (heading a) (concat (map article_block D))"
      and "sublist (url a) (concat (map article_block D))"
      using sublist_heading [of a] sublist_url [of a] by (blast intro: sublist_order.order_trans)+
    then show "sublist (heading a) (renderTelegramMessage D T)
                   \<and> sublist (url a) (renderTelegramMessage D T)"
      by (simp add: blocks)
  qed
  have 4: "\<forall>t \<in> set T. sublist t (renderTelegramMessage D T)"
  proof
    fix t assume "t \<in> set T"
    then have "sublist t (join (js '', '') T)" by (rule sublist_join)
    then have "sublist t ((digest_title @ js ''_Topics: '') @ join (js '', '') T @ (js ''_'' @ nl @ nl
      @ concat (map article_block D) @ digest_footer))"
      by (rule sublist_mid)
    then show "sublist t (renderTelegramMessage D T)" by (simp add: 1)
  qed
  from 1 2 3 4 show ?thesis by blast
qed

theorem renderTelegramMessage_blocks_witness:
  "same_story \<noteq> [] \<and> 1 < length same_story
   \<and> same_story ! 1 \<in> set same_story
   \<and> js ''Science'' \<in> set [js ''Technology'', js ''Science'']
   \<and> sublist (js ''Chip news'') (renderTelegramMessage same_story [js ''Technology'', js ''Science''])
   \<and> sublist (js ''https://n.example/9'') (renderTelegramMessage same_story [js ''Technology'', js ''Science''])
   \<and> sublist (js ''Science'') (renderTelegramMessage same_story [js ''Technology'', js ''Science''])"
proof -
  have 1: "same_story \<noteq> []" and 2: "1 < length same_story" and 3: "same_story ! 1 \<in> set same_story"
    and 4: "heading (same_story ! 1) = js ''Chip news''" and 5: "url (same_story ! 1) = js ''https://n.example/9''"
    by (simp_all add: same_story_def)
  have 6: "js ''Science'' \<in> set [js ''Technology'', js ''Science'']" by simp
  from renderTelegramMessage_blocks [OF 1, of "[js ''Technology'', js ''Science'']"] 3 4 5 6
  have "sublist (js ''Chip news'') (renderTelegramMessage same_story [js ''Technology'', js ''Science''])
   \<and> sublist (js ''https://n.example/9'') (renderTelegramMessage same_story [js ''Technology'', js ''Science''])
   \<and> sublist (js ''Science'') (renderTelegramMessage same_story [js ''Technology'', js ''Science''])"
    by metis
  with 1 2 3 6 show ?thesis by blast
qed

text \<open>
  C9 as stated fails: when two articles of the digest are the same story (found under two
  topics), its heading and its URL occur twice in the message.
\<close>

theorem renderTelegramMessage_counterexample:
  "same_story \<noteq> []
   \<and> occurrences (heading (same_story ! 0)) (renderTelegramMessage same_story [js ''Technology'', js ''Science'']) = 2
   \<and> occurrences (url (same_story ! 0)) (renderTelegramMessage same_story [js ''Technology'', js ''Science'']) = 2"
  by (simp add: same_story_def renderTelegramMessage_def digest_title_def topics_line_def
      article_block_def digest_footer_def js_def nl_def hot_beverage_def small_blue_diamond_def
      calendar_def)

subsection \<open>Topics outside the fixed list\<close>

lemma match_toggle_Some:
  "t \<noteq> [] \<Longrightarrow> list_all (\<lambda>c. c \<notin> set line_terminators) t \<Longrightarrow> match_toggle (js ''toggle_'' @ t) = Some t"
  by (simp add: match_toggle_def js_def)

lemma selection_toggle:
  "selection (state_of (toggle e u t s)) u =
     (if t \<in> selection s u then selection s u - {t} else insert t (selection s u))"
  by (auto simp: selection_def toggle_state update_conv' Let_def split: option.splits)

text \<open>
  C10, as the source has it. The toggle action takes as topic any non-empty string without
  a line terminator (what \<^verbatim>\<open>.+\<close> matches) and adds it to, or removes it from, the
  selection; the fixed list of topics is not consulted, and a commit after adding it stores
  it. There is such a string outside the fixed list that ends up as a Preference Record.
\<close>

theorem toggle_any_single_line_topic:
  "(t \<noteq> [] \<and> list_all (\<lambda>c. c \<notin> set line_terminators) t \<longrightarrow>
      handle e (Callback u (js ''toggle_'' @ t)) s = toggle e u t s
      \<and> selection (state_of (toggle e u t s)) u =
          (if t \<in> selection s u then selection s u - {t} else insert t (selection s u))
      \<and> (t \<notin> selection s u \<longrightarrow>
           (\<exists>ts. map_of (userPreferences
                    (state_of (handle e' (Callback u (js ''done_selection''))
                       (state_of (handle e (Callback u (js ''toggle_'' @ t)) s))))) u = Some ts
                 \<and> t \<in> set ts)))
   \<and> (\<exists>t'. t' \<notin> set AVAILABLE_TOPICS
         \<and> map_of (userPreferences
              (state_of (handle e' (Callback u (js ''done_selection''))
                 (state_of (handle e (Callback u (js ''toggle_'' @ t')) initial_state))))) u = Some [t'])"
proof -
  have general: "handle e (Callback u (js ''toggle_'' @ t)) s = toggle e u t s
      \<and> selection (state_of (toggle e u t s)) u =
          (if t \<in> selection s u then selection s u - {t} else insert t (selection s u))
      \<and> (t \<notin> selection s u \<longrightarrow>
           (\<exists>ts. map_of (userPreferences
                    (state_of (handle e' (Callback u (js ''done_selection''))
                       (state_of (handle e (Callback u (js ''toggle_'' @ t)) s))))) u = Some ts
                 \<and> t \<in> set ts))"
    if t: "t \<noteq> []" "list_all (\<lambda>c. c \<notin> set line_terminators) t" for t s
  proof -
    have h: "handle e (Callback u (js ''toggle_'' @ t)) s = toggle e u t s"
      using t by (simp add: match_toggle_Some)
    have "\<exists>ts. map_of (userPreferences (state_of (done_selection e' u (state_of (toggle e u t s))))) u = Some ts
                 \<and> t \<in> set ts" if "t \<notin> selection s u"
      using that
      by (auto simp: done_selection_state toggle_state update_conv' selection_def Let_def
          split: option.splits)
    then show ?thesis
      by (simp only: h selection_toggle) (simp add: match_toggle_done)
  qed
  have astro: "js ''Astrology'' \<noteq> []" "list_all (\<lambda>c. c \<notin> set line_terminators) (js ''Astrology'')"
    by (simp_all add: js_def line_terminators_def)
  have unlisted: "js ''Astrology'' \<notin> set AVAILABLE_TOPICS"
    by (simp add: AVAILABLE_TOPICS_def js_def)
  have "map_of (userPreferences
              (state_of (handle e' (Callback u (js ''done_selection''))
                 (state_of (handle e (Callback u (js ''toggle_'' @ js ''Astrology'')) initial_state))))) u
          = Some [js ''Astrology'']"
    using astro
    by (simp add: match_toggle_Some match_toggle_done toggle_state done_selection_state
        initial_state_def update_conv')
  with unlisted general show ?thesis by blast
qed

theorem toggle_any_single_line_topic_witness:
  "js ''Astrology'' \<noteq> [] \<and> list_all (\<lambda>c. c \<notin> set line_terminators) (js ''Astrology'')
   \<and> js ''Astrology'' \<notin> selection menu_opened 7
   \<and> js ''Astrology'' \<notin> set AVAILABLE_TOPICS
   \<and> userPreferences
        (state_of (handle crypto_only (Callback 7 (js ''done_selection''))
           (state_of (handle crypto_only (Callback 7 (js ''toggle_'' @ js ''Astrology'')) menu_opened))))
       = [(7, [js ''Astrology''])]"
  using toggle_any_single_line_topic [of "js ''Astrology''" crypto_only 7 menu_opened crypto_only]
  by (simp add: menu_opened_val selection_def AVAILABLE_TOPICS_def match_toggle_def js_def
      line_terminators_def toggle_state done_selection_state)

text \<open>
  C10 as stated fails for a topic that is a line feed: the pattern does not match the
  callback data, no handler runs, and the selection is unchanged.
\<close>

theorem toggle_line_terminator_counterexample:
  "nl \<noteq> [] \<and> match_toggle (js ''toggle_'' @ nl) = None
   \<and> handle crypto_only (Callback 7 (js ''toggle_'' @ nl)) menu_opened = (Resolved, [], menu_opened)"
  by (simp add: match_toggle_def js_def nl_def line_terminators_def)

end
